theory Spec2Isabelle
  imports Complex_Main
begin

section \<open>JavaScript values and string primitives\<close>

text \<open>
  The TypeScript sources work on JSON data. A JavaScript number is modelled by the
  rational it denotes, together with the three non-finite values: \<open>Fin q\<close> stands for
  the IEEE double nearest to \<open>q\<close>, and the rounding of the digits is not modelled.
  A value of type \<^verbatim>\<open>unknown\<close> in a raw backend row is one of the JSON scalars;
  \<open>JObject s\<close> stands for any array or object, which is truthy, with \<open>s\<close> the text
  that \<^verbatim>\<open>String(v)\<close> gives for it. A string is a list of code units below 256
  (Latin-1); case mapping and white space are JavaScript's on these code units, and
  text with other characters is not modelled.
\<close>

datatype jsnum = Fin rat | NaN | PosInf | NegInf

datatype jsval = JUndefined | JNull | JBool bool | JNum jsnum | JStr string | JObject string

text \<open>ToBoolean: \<^verbatim>\<open>false, 0, NaN, "", null, undefined\<close> are falsy.\<close>

fun truthy :: "jsval \<Rightarrow> bool" where
  "truthy JUndefined = False"
| "truthy JNull = False"
| "truthy (JBool b) = b"
| "truthy (JNum (Fin q)) = (q \<noteq> 0)"
| "truthy (JNum NaN) = False"
| "truthy (JNum PosInf) = True"
| "truthy (JNum NegInf) = True"
| "truthy (JStr s) = (s \<noteq> [])"
| "truthy (JObject s) = True"

definition isDigit :: "char \<Rightarrow> bool" where
  "isDigit c = (c \<in> set ''0123456789'')"

definition digitVal :: "char \<Rightarrow> nat" where
  "digitVal c = (case map_of (zip ''0123456789'' [0, 1, 2, 3, 4, 5, 6, 7, 8, 9]) c of
                   Some d \<Rightarrow> d | None \<Rightarrow> 0)"

definition digitChar :: "nat \<Rightarrow> char" where
  "digitChar d = ''0123456789'' ! (d mod 10)"

definition digitsToNat :: "string \<Rightarrow> nat" where
  "digitsToNat ds = foldl (\<lambda>n c. 10 * n + digitVal c) 0 ds"

fun natToString :: "nat \<Rightarrow> string" where
  "natToString n = (if n < 10 then [digitChar n] else natToString (n div 10) @ [digitChar n])"

declare natToString.simps [simp del]

text \<open>
  \<^verbatim>\<open>Number.prototype.toString\<close>: the decimal digits of the number, for the numbers
  that JavaScript prints without an exponent. \<open>fracDigits\<close> gives the digits after the
  decimal point of \<open>r / b\<close>, for \<open>r < b\<close>, at most \<open>fuel\<close> of them.
\<close>

fun fracDigits :: "nat \<Rightarrow> nat \<Rightarrow> nat \<Rightarrow> string" where
  "fracDigits 0 r b = []"
| "fracDigits (Suc fuel) r b =
     (if r = 0 then [] else digitChar ((10 * r) div b) # fracDigits fuel ((10 * r) mod b) b)"

definition numberToString :: "jsnum \<Rightarrow> string" where
  "numberToString x =
     (case x of
        NaN \<Rightarrow> ''NaN''
      | PosInf \<Rightarrow> ''Infinity''
      | NegInf \<Rightarrow> ''-Infinity''
      | Fin q \<Rightarrow>
          (let (a, b) = quotient_of q;
               m = nat \<bar>a\<bar>;
               d = nat b;
               whole = natToString (m div d);
               frac = fracDigits d (m mod d) d
           in (if a < 0 then ''-'' else '''') @ whole @ (if frac = [] then [] else ''.'' @ frac)))"

text \<open>\<^verbatim>\<open>String(v)\<close>, which is also \<^verbatim>\<open>v.toString()\<close> where that is defined.\<close>

fun String_js :: "jsval \<Rightarrow> string" where
  "String_js JUndefined = ''undefined''"
| "String_js JNull = ''null''"
| "String_js (JBool b) = (if b then ''true'' else ''false'')"
| "String_js (JNum x) = numberToString x"
| "String_js (JStr s) = s"
| "String_js (JObject s) = s"

definition isSpace :: "char \<Rightarrow> bool" where
  "isSpace c = (c \<in> {CHR '' '', CHR 0x09, CHR 0x0A, CHR 0x0B, CHR 0x0C, CHR 0x0D, CHR 0xA0})"

definition trim :: "string \<Rightarrow> string" where
  "trim s = rev (dropWhile isSpace (rev (dropWhile isSpace s)))"

text \<open>
  \<^verbatim>\<open>toLowerCase\<close>: the letters A to Z and the capital letters of Latin-1 (code units
  0xC0 to 0xDE, the multiplication sign 0xD7 apart) move up by 32.
\<close>

definition toLowerChar :: "char \<Rightarrow> char" where
  "toLowerChar c =
     (let n = (of_char c :: nat)
      in if (65 \<le> n \<and> n \<le> 90) \<or> (192 \<le> n \<and> n \<le> 222 \<and> n \<noteq> 215)
         then char_of (n + 32) else c)"

definition toLowerCase :: "string \<Rightarrow> string" where
  "toLowerCase s = map toLowerChar s"

fun startsWith :: "string \<Rightarrow> string \<Rightarrow> bool" where
  "startsWith s [] = True"
| "startsWith [] (p # ps) = False"
| "startsWith (c # cs) (p # ps) = (c = p \<and> startsWith cs ps)"

text \<open>\<^verbatim>\<open>s.includes(t)\<close>: \<open>t\<close> occurs in \<open>s\<close> as a contiguous substring.\<close>

fun includes_js :: "string \<Rightarrow> string \<Rightarrow> bool" where
  "includes_js [] t = (t = [])"
| "includes_js (c # cs) t = (startsWith (c # cs) t \<or> includes_js cs t)"

text \<open>
  \<^verbatim>\<open>parseFloat\<close>: leading white space is skipped, then the longest prefix that is a
  decimal literal is read (sign, digits, fraction, exponent, or \<^verbatim>\<open>Infinity\<close>);
  without one the result is \<^verbatim>\<open>NaN\<close>. A value at or beyond the overflow threshold
  of the doubles reads as \<^verbatim>\<open>Infinity\<close>, one at or below half the least positive
  double as \<^verbatim>\<open>0\<close>.
\<close>

definition parseExponent :: "string \<Rightarrow> int" where
  "parseExponent s =
     (case s of
        [] \<Rightarrow> 0
      | e # r \<Rightarrow>
          if e = CHR ''e'' \<or> e = CHR ''E'' then
            (case r of
               [] \<Rightarrow> 0
             | g # r' \<Rightarrow>
                 if g = CHR ''-'' then - int (digitsToNat (takeWhile isDigit r'))
                 else if g = CHR ''+'' then int (digitsToNat (takeWhile isDigit r'))
                 else int (digitsToNat (takeWhile isDigit r)))
          else 0)"

definition scale10 :: "nat \<Rightarrow> int \<Rightarrow> rat" where
  "scale10 m e = (if 0 \<le> e then of_nat m * 10 ^ nat e else of_nat m / 10 ^ nat (- e))"

definition fromDecimal :: "rat \<Rightarrow> jsnum" where
  "fromDecimal v =
     (if 2 ^ 1024 - 2 ^ 970 \<le> v then PosInf
      else if v \<le> 1 / 2 ^ 1075 then Fin 0
      else Fin v)"

definition parseUnsigned :: "string \<Rightarrow> jsnum" where
  "parseUnsigned s =
     (if startsWith s ''Infinity'' then PosInf
      else
        (let ip = takeWhile isDigit s;
             r1 = dropWhile isDigit s;
             hasDot = startsWith r1 ''.'';
             fp = (if hasDot then takeWhile isDigit (tl r1) else []);
             r2 = (if hasDot then dropWhile isDigit (tl r1) else r1)
         in if ip = [] \<and> fp = [] then NaN
            else fromDecimal
                   (scale10 (digitsToNat (ip @ fp)) (parseExponent r2 - int (length fp)))))"

definition negate :: "jsnum \<Rightarrow> jsnum" where
  "negate x = (case x of Fin q \<Rightarrow> Fin (- q) | NaN \<Rightarrow> NaN | PosInf \<Rightarrow> NegInf | NegInf \<Rightarrow> PosInf)"

definition parseFloat :: "string \<Rightarrow> jsnum" where
  "parseFloat s =
     (case dropWhile isSpace s of
        [] \<Rightarrow> NaN
      | c # r \<Rightarrow>
          if c = CHR ''-'' then negate (parseUnsigned r)
          else if c = CHR ''+'' then parseUnsigned r
          else parseUnsigned (c # r))"

section \<open>Errors\<close>

text \<open>
  \<^verbatim>\<open>CFError\<close> (Models/CFError.ts) carries a kind tag and the message
  \<^verbatim>\<open>name + ':' + message\<close>. A property read on \<^verbatim>\<open>undefined\<close> is JavaScript's
  \<^verbatim>\<open>TypeError\<close>.
\<close>

datatype ErrorName = Config | Bank | UserErr | AIErr | APIErr

fun errorNameString :: "ErrorName \<Rightarrow> string" where
  "errorNameString Config = ''Config''"
| "errorNameString Bank = ''Bank''"
| "errorNameString UserErr = ''UserErr''"
| "errorNameString AIErr = ''AIErr''"
| "errorNameString APIErr = ''APIErr''"

datatype error = CFError ErrorName string | TypeError

definition newCFError :: "ErrorName \<Rightarrow> string \<Rightarrow> error" where
  "newCFError name message = CFError name (errorNameString name @ '':'' @ message)"

section \<open>Operator translator (tools/helper.ts, getOperator)\<close>

datatype reqtype = Sql | Script

fun reqtypeString :: "reqtype \<Rightarrow> string" where
  "reqtypeString Sql = ''sql''"
| "reqtypeString Script = ''script''"

definition operatorNotFound :: "reqtype \<Rightarrow> string \<Rightarrow> string \<Rightarrow> error" where
  "operatorNotFound rt dt operator =
     newCFError AIErr
       (''Operator '' @ operator @ '' for datetype '' @ dt @ '' not found for '' @ reqtypeString rt)"

definition getOperator :: "reqtype \<Rightarrow> string \<Rightarrow> string \<Rightarrow> error + string" where
  "getOperator rt dt operator =
     (if rt = Sql then
        (if (operator = ''='' \<and> dt = ''string'') \<or> operator = ''Like'' then Inr ''LIKE''
         else if (operator = ''!='' \<and> dt = ''string'') \<or> operator = ''Not_Like'' then Inr ''NOT LIKE''
         else Inr operator)
      else if dt = ''boolean'' then Inr ''is''
      else if dt = ''number'' then
        (if operator = ''='' then Inr ''EQUALTO''
         else if operator = ''!='' then Inr ''NOTEQUALTO''
         else if operator = ''<'' then Inr ''LESSTHAN''
         else if operator = ''<='' then Inr ''LESSTHANOREQUALTO''
         else if operator = ''>'' then Inr ''GREATERTHAN''
         else if operator = ''>='' then Inr ''GREATERTHANOREQUALTO''
         else Inl (operatorNotFound rt dt operator))
      else if dt = ''date'' then
        (if operator = ''='' then Inr ''ON''
         else if operator = ''!='' then Inr ''NOTON''
         else if operator = ''<'' then Inr ''BEFORE''
         else if operator = ''<='' then Inr ''ONORBEFORE''
         else if operator = ''>'' then Inr ''AFTER''
         else if operator = ''>='' then Inr ''ONORAFTER''
         else Inl (operatorNotFound rt dt operator))
      else if dt = ''string'' then
        (if operator = ''='' \<or> operator = ''Like'' then Inr ''CONTAINS''
         else if operator = ''!='' \<or> operator = ''Not_Like'' then Inr ''DOESNOTCONTAIN''
         else Inl (operatorNotFound rt dt operator))
      else if dt = ''id'' then
        (if operator = ''='' \<or> operator = ''Like'' then Inr ''ANYOF''
         else if operator = ''!='' \<or> operator = ''Not_Like'' then Inr ''NONEOF''
         else Inl (operatorNotFound rt dt operator))
      else Inl (operatorNotFound rt dt operator))"

section \<open>The generic envelope and the column maps (tools/helper.ts)\<close>

text \<open>
  An optional property is an \<open>option\<close>, \<open>None\<close> for \<^verbatim>\<open>undefined\<close>. A
  \<^verbatim>\<open>Dictionary<T>\<close> is the list of its entries in \<^verbatim>\<open>Object.keys\<close> order.
  \<open>ColumnBase\<close> holds the properties that the column types and the
  \<^verbatim>\<open>propertyNames\<close> of utils/transform.ts share; a SuiteQL column declares no
  \<^verbatim>\<open>name\<close>, so that reading it gives \<^verbatim>\<open>undefined\<close>. The order specification and
  the default sort each have a \<^verbatim>\<open>Column\<close> and a \<^verbatim>\<open>SortOrder\<close>, named apart here.
\<close>

record FilterParam =
  Column :: string
  Operator :: string
  Value :: string

record OrderByParam =
  OrderColumn :: string
  SortOrder :: "string option"

record DefaultSort =
  DefaultColumn :: string
  DefaultSortOrder :: string

record NetSuiteParams =
  CountOnly :: "bool option"
  OrderBy :: "OrderByParam option"
  Filters :: "FilterParam list option"
  Limit :: "jsnum option"
  Offset :: "jsnum option"

record ColumnBase =
  name :: "string option"
  type :: string
  format :: "string option"
  filterOnly :: "bool option"

record SuiteQLColumn = ColumnBase +
  sql :: string

type_synonym SuiteQLColumns = "(string \<times> SuiteQLColumn) list"

text \<open>
  \<^verbatim>\<open>Columns[key]\<close> on a column map. A name that is not a key of the map may still be
  one of the properties every object inherits from \<^verbatim>\<open>Object.prototype\<close>: the value
  read is then a function (for \<^verbatim>\<open>__proto__\<close> the prototype object), which is truthy.
  \<open>objectPrototypeNames\<close> lists these names, each with the \<^verbatim>\<open>name\<close> property of
  its value. Every other column property of such a value is \<^verbatim>\<open>undefined\<close>; the
  code only compares \<^verbatim>\<open>type\<close> with literals and renders \<^verbatim>\<open>type\<close> and
  \<^verbatim>\<open>sql\<close> as text, so the column standing for the value holds the text
  \<^verbatim>\<open>undefined\<close> in these two.
\<close>

definition objectPrototypeNames :: "(string \<times> string option) list" where
  "objectPrototypeNames =
     [(''constructor'', Some ''Object''),
      (''__defineGetter__'', Some ''__defineGetter__''),
      (''__defineSetter__'', Some ''__defineSetter__''),
      (''hasOwnProperty'', Some ''hasOwnProperty''),
      (''__lookupGetter__'', Some ''__lookupGetter__''),
      (''__lookupSetter__'', Some ''__lookupSetter__''),
      (''isPrototypeOf'', Some ''isPrototypeOf''),
      (''propertyIsEnumerable'', Some ''propertyIsEnumerable''),
      (''toString'', Some ''toString''),
      (''valueOf'', Some ''valueOf''),
      (''toLocaleString'', Some ''toLocaleString''),
      (''__proto__'', None)]"

definition getColumn :: "(string \<times> 'c) list \<Rightarrow> (string option \<Rightarrow> 'c) \<Rightarrow> string \<Rightarrow> 'c option" where
  "getColumn Columns inherited key =
     (case map_of Columns key of
        Some c \<Rightarrow> Some c
      | None \<Rightarrow> map_option inherited (map_of objectPrototypeNames key))"

definition inheritedSQLColumn :: "string option \<Rightarrow> SuiteQLColumn" where
  "inheritedSQLColumn n =
     \<lparr>name = n, type = ''undefined'', format = None, filterOnly = None, sql = ''undefined''\<rparr>"

text \<open>
  The date functions of utils/date.ts call the luxon library, which is not part of the
  repository: they are parameters of the model.
\<close>

record DateUtil =
  ISOToFormat :: "string \<Rightarrow> string \<Rightarrow> string"
  FormatToISO :: "string \<Rightarrow> string \<Rightarrow> string"

text \<open>A template literal or \<^verbatim>\<open>+\<close> renders \<^verbatim>\<open>undefined\<close> as text.\<close>

definition strOf :: "string option \<Rightarrow> string" where
  "strOf s = (case s of None \<Rightarrow> ''undefined'' | Some t \<Rightarrow> t)"

definition truthyStr :: "string option \<Rightarrow> bool" where
  "truthyStr s = (case s of None \<Rightarrow> False | Some t \<Rightarrow> t \<noteq> [])"

definition truthyNum :: "jsnum option \<Rightarrow> bool" where
  "truthyNum n = (case n of None \<Rightarrow> False | Some x \<Rightarrow> truthy (JNum x))"

fun join_js :: "string \<Rightarrow> string list \<Rightarrow> string" where
  "join_js sep [] = []"
| "join_js sep [x] = x"
| "join_js sep (x # y # ys) = x @ sep @ join_js sep (y # ys)"

text \<open>
  \<^verbatim>\<open>s.replace(pattern, replacement)\<close> with a string pattern: the first occurrence
  only, and in the replacement \<^verbatim>\<open>$$\<close>, \<^verbatim>\<open>$&\<close>, \<^verbatim>\<open>$`\<close> and \<^verbatim>\<open>$'\<close> stand for a
  dollar sign, the match, the text before it and the text after it.
\<close>

fun getSubstitution :: "string \<Rightarrow> string \<Rightarrow> string \<Rightarrow> string \<Rightarrow> string" where
  "getSubstitution m b a [] = []"
| "getSubstitution m b a [c] = [c]"
| "getSubstitution m b a (c # d # r) =
     (if c = CHR ''$'' then
        (if d = CHR ''$'' then CHR ''$'' # getSubstitution m b a r
         else if d = CHR ''&'' then m @ getSubstitution m b a r
         else if d = CHR 0x60 then b @ getSubstitution m b a r
         else if d = CHR 0x27 then a @ getSubstitution m b a r
         else c # getSubstitution m b a (d # r))
      else c # getSubstitution m b a (d # r))"

fun splitAtFirst :: "string \<Rightarrow> string \<Rightarrow> (string \<times> string) option" where
  "splitAtFirst pat [] = (if pat = [] then Some ([], []) else None)"
| "splitAtFirst pat (c # cs) =
     (if startsWith (c # cs) pat then Some ([], drop (length pat) (c # cs))
      else map_option (\<lambda>(b, a). (c # b, a)) (splitAtFirst pat cs))"

definition replace :: "string \<Rightarrow> string \<Rightarrow> string \<Rightarrow> string" where
  "replace s pat rep =
     (case splitAtFirst pat s of
        None \<Rightarrow> s
      | Some (b, a) \<Rightarrow> b @ getSubstitution pat b a rep @ a)"

section \<open>Query compiler, textual (getFiltersSQL, formatSQL)\<close>

definition formattedValueSQL :: "DateUtil \<Rightarrow> SuiteQLColumn \<Rightarrow> FilterParam \<Rightarrow> string" where
  "formattedValueSQL du columnConfig fltr =
     (if type columnConfig = ''date'' then
        '' TO_DATE('' @ [CHR 0x27] @ ISOToFormat du (Value fltr) ''yyyyMMdd'' @ [CHR 0x27]
          @ '', 'YYYYMMDD') ''
      else if type columnConfig = ''string'' then
        '' '%'' @ Value fltr @ ''%' ''
      else '' '' @ [CHR 0x27] @ Value fltr @ [CHR 0x27] @ '' '')"

text \<open>The loop of getFiltersSQL, with the string built so far.\<close>

fun getFiltersSQL_from ::
  "DateUtil \<Rightarrow> SuiteQLColumns \<Rightarrow> string \<Rightarrow> FilterParam list \<Rightarrow> error + string" where
  "getFiltersSQL_from du Columns filters [] = Inr filters"
| "getFiltersSQL_from du Columns filters (fltr # rest) =
     (case getColumn Columns inheritedSQLColumn (Column fltr) of
        None \<Rightarrow> getFiltersSQL_from du Columns filters rest
      | Some columnConfig \<Rightarrow>
          (case getOperator Sql (type columnConfig) (Operator fltr) of
             Inl e \<Rightarrow> Inl e
           | Inr operator \<Rightarrow>
               getFiltersSQL_from du Columns
                 ((if filters \<noteq> [] then filters @ '' AND '' else filters)
                    @ sql columnConfig @ '' '' @ operator @ '' ''
                    @ formattedValueSQL du columnConfig fltr)
                 rest))"

definition getFiltersSQL :: "DateUtil \<Rightarrow> SuiteQLColumns \<Rightarrow> FilterParam list \<Rightarrow> error + string" where
  "getFiltersSQL du Columns filtersParams = getFiltersSQL_from du Columns [] filtersParams"

text \<open>The pieces formatSQL substitutes for its three placeholders.\<close>

definition columnsSQL :: "SuiteQLColumns \<Rightarrow> string" where
  "columnsSQL Columns =
     join_js '', ''
       (filter (\<lambda>k. k \<noteq> [])
          (map (\<lambda>(key, c). if filterOnly c \<noteq> Some True then sql c @ '' AS '' @ key else [])
             Columns))"

definition limitSQL :: "NetSuiteParams \<Rightarrow> string" where
  "limitSQL params =
     (if CountOnly params = Some True then []
      else if truthyNum (Limit params) then ''TOP '' @ numberToString (the (Limit params))
      else [])"

definition columnsClause :: "SuiteQLColumns \<Rightarrow> NetSuiteParams \<Rightarrow> string" where
  "columnsClause Columns params =
     (if CountOnly params = Some True then ''COUNT(*) AS Count''
      else limitSQL params @ '' '' @ columnsSQL Columns)"

definition orderBySQL :: "SuiteQLColumns \<Rightarrow> NetSuiteParams \<Rightarrow> DefaultSort \<Rightarrow> string" where
  "orderBySQL Columns params defaultSort =
     (if CountOnly params = Some True then []
      else
        (case (case OrderBy params of
                 None \<Rightarrow> None
               | Some ob \<Rightarrow> map_option (\<lambda>c. (c, ob))
                             (getColumn Columns inheritedSQLColumn (OrderColumn ob))) of
           Some (c, ob) \<Rightarrow> sql c @ '' '' @ strOf (SortOrder ob)
         | None \<Rightarrow>
             (case getColumn Columns inheritedSQLColumn (DefaultColumn defaultSort) of
                Some c \<Rightarrow> sql c @ '' '' @ DefaultSortOrder defaultSort
              | None \<Rightarrow> [])))"

definition orderByClause :: "SuiteQLColumns \<Rightarrow> NetSuiteParams \<Rightarrow> DefaultSort \<Rightarrow> string" where
  "orderByClause Columns params defaultSort =
     (let orderBy = orderBySQL Columns params defaultSort
      in if orderBy \<noteq> [] then ''ORDER BY '' @ orderBy else [])"

definition whereClause ::
  "DateUtil \<Rightarrow> SuiteQLColumns \<Rightarrow> NetSuiteParams \<Rightarrow> string \<Rightarrow> error + string" where
  "whereClause du Columns params inbuiltFilter =
     (case (case Filters params of
              None \<Rightarrow> Inr []
            | Some fs \<Rightarrow> getFiltersSQL du Columns fs) of
        Inl e \<Rightarrow> Inl e
      | Inr filterString \<Rightarrow>
          (let filters0 = (if inbuiltFilter \<noteq> [] then '' '' @ inbuiltFilter else []);
               filters = (if filterString \<noteq> []
                          then filters0 @ (if filters0 \<noteq> [] then '' AND '' else []) @ filterString
                          else filters0)
           in Inr (if filters \<noteq> [] then ''WHERE '' @ filters else [])))"

definition formatSQL ::
  "DateUtil \<Rightarrow> string \<Rightarrow> SuiteQLColumns \<Rightarrow> NetSuiteParams \<Rightarrow> string \<Rightarrow> DefaultSort
   \<Rightarrow> error + string" where
  "formatSQL du sql0 Columns params inbuiltFilter defaultSort =
     (let sql1 = replace sql0 ''{Columns}'' (columnsClause Columns params);
          sql2 = replace sql1 ''{OrderBy}'' (orderByClause Columns params defaultSort)
      in case whereClause du Columns params inbuiltFilter of
           Inl e \<Rightarrow> Inl e
         | Inr w \<Rightarrow> Inr (replace sql2 ''{Filters}'' w))"

section \<open>Query compiler, structured (getFiltersSearch, formatSearchObj)\<close>

text \<open>The property \<^verbatim>\<open>txt\<close> of a column is the field \<open>txtFlag\<close>.\<close>

record SuiteScriptColumn = ColumnBase +
  filtertype :: "string option"
  formula :: "string option"
  filterformula :: "string option"
  txtFlag :: "bool option"
  join :: "string option"
  summary :: "string option"
  enum :: "string option"

type_synonym SuiteScriptColumns = "(string \<times> SuiteScriptColumn) list"

definition inheritedScriptColumn :: "string option \<Rightarrow> SuiteScriptColumn" where
  "inheritedScriptColumn n =
     \<lparr>name = n, type = ''undefined'', format = None, filterOnly = None, filtertype = None,
      formula = None, filterformula = None, txtFlag = None, join = None, summary = None,
      enum = None\<rparr>"

text \<open>
  An element of a filter expression (\<^verbatim>\<open>string | string[]\<close>): a token such as
  \<^verbatim>\<open>'AND'\<close>, or a triple; an entry of a triple is \<open>None\<close> where the code puts
  \<^verbatim>\<open>undefined\<close> there.
\<close>

datatype filterItem = Tok string | Triple "string option list"

text \<open>A \<^verbatim>\<open>GenDictionary\<close>: property names with their values, in insertion order.\<close>

type_synonym GenDictionary = "(string \<times> jsval) list"

record SearchRestletParams =
  searchType :: string
  filters :: "filterItem list"
  columns :: "GenDictionary list"
  countOnly :: bool
  maxResults :: jsnum
  settings :: "(string \<times> string) list"

definition MAX_ARRAY_ITEMS :: jsnum where
  "MAX_ARRAY_ITEMS = Fin 10000"

definition filterColName :: "SuiteScriptColumn \<Rightarrow> string option" where
  "filterColName c =
     (if truthyStr (filterformula c) then filterformula c
      else if truthyStr (formula c) then formula c
      else if truthyStr (join c) then Some (strOf (join c) @ ''.'' @ strOf (name c))
      else name c)"

text \<open>
  The loop of getFiltersSearch, with the list built so far. Reading a property of
  \<^verbatim>\<open>Columns[filter.Column]\<close> throws when that is \<^verbatim>\<open>undefined\<close>; for an inherited
  name the data type is \<^verbatim>\<open>undefined\<close> and getOperator throws.
\<close>

fun getFiltersSearch_from ::
  "DateUtil \<Rightarrow> SuiteScriptColumns \<Rightarrow> filterItem list \<Rightarrow> FilterParam list
   \<Rightarrow> error + filterItem list" where
  "getFiltersSearch_from du Columns fs [] = Inr fs"
| "getFiltersSearch_from du Columns fs (fltr # rest) =
     (let fs1 = (if fs \<noteq> [] then fs @ [Tok ''AND''] else fs)
      in case getColumn Columns inheritedScriptColumn (Column fltr) of
           None \<Rightarrow> Inl TypeError
         | Some c \<Rightarrow>
             (case getOperator Script (case filtertype c of Some t \<Rightarrow> t | None \<Rightarrow> type c)
                     (Operator fltr) of
                Inl e \<Rightarrow> Inl e
              | Inr operator \<Rightarrow>
                  (let v = (if type c = ''date''
                            then ISOToFormat du (Value fltr)
                                   (case format c of Some f \<Rightarrow> f | None \<Rightarrow> ''M/d/yyyy'')
                            else Value fltr)
                   in getFiltersSearch_from du Columns
                        (fs1 @ [Triple [filterColName c, Some operator, Some v]]) rest)))"

definition getFiltersSearch ::
  "DateUtil \<Rightarrow> SuiteScriptColumns \<Rightarrow> FilterParam list \<Rightarrow> error + filterItem list" where
  "getFiltersSearch du Columns filtersParams = getFiltersSearch_from du Columns [] filtersParams"

fun splitOn :: "char \<Rightarrow> string \<Rightarrow> string list" where
  "splitOn d [] = [[]]"
| "splitOn d (c # cs) =
     (if c = d then [] # splitOn d cs
      else (case splitOn d cs of [] \<Rightarrow> [[c]] | p # ps \<Rightarrow> (c # p) # ps))"

definition jsStr :: "string option \<Rightarrow> jsval" where
  "jsStr s = (case s of None \<Rightarrow> JUndefined | Some t \<Rightarrow> JStr t)"

definition jsBool :: "bool option \<Rightarrow> jsval" where
  "jsBool b = (case b of None \<Rightarrow> JUndefined | Some t \<Rightarrow> JBool t)"

text \<open>
  The order column and direction formatSearchObj resolves: \<^verbatim>\<open>['', '']\<close> in count
  mode, the requested order when there is one, the default sort otherwise.
\<close>

definition orderBySearch :: "NetSuiteParams \<Rightarrow> DefaultSort \<Rightarrow> string \<times> string" where
  "orderBySearch params defaultSort =
     (if CountOnly params = Some True then ([], [])
      else
        (case OrderBy params of
           Some ob \<Rightarrow>
             (OrderColumn ob, if truthyStr (SortOrder ob) then strOf (SortOrder ob) else ''ASC'')
         | None \<Rightarrow> (DefaultColumn defaultSort, DefaultSortOrder defaultSort)))"

text \<open>
  One element of the column projection; \<open>[]\<close> is the empty object of a filter-only
  column. \<^verbatim>\<open>split(':')[1].trim()\<close> throws on a formula without a colon.
\<close>

definition searchColumn ::
  "string \<times> string \<Rightarrow> string \<Rightarrow> SuiteScriptColumn \<Rightarrow> error + GenDictionary" where
  "searchColumn orderBy key c =
     (if filterOnly c = Some True then Inr []
      else
        (case (if truthyStr (formula c)
               then (case splitOn CHR '':'' (strOf (formula c)) of
                       p0 # p1 # ps \<Rightarrow> Inr (JStr (trim p0), JStr (trim p1))
                     | _ \<Rightarrow> Inl TypeError)
               else Inr (jsStr (name c), JUndefined)) of
           Inl e \<Rightarrow> Inl e
         | Inr (n, f) \<Rightarrow>
             (let col = [(''name'', n), (''txt'', jsBool (txtFlag c)), (''join'', jsStr (join c)),
                         (''summary'', jsStr (summary c)), (''formula'', f)]
              in Inr (if key = fst orderBy then col @ [(''sort'', JStr (snd orderBy))] else col))))"

text \<open>A \<^verbatim>\<open>map\<close> whose callback may throw: the first error ends it.\<close>

fun mapE :: "('a \<Rightarrow> error + 'b) \<Rightarrow> 'a list \<Rightarrow> error + 'b list" where
  "mapE f [] = Inr []"
| "mapE f (x # xs) =
     (case f x of
        Inl e \<Rightarrow> Inl e
      | Inr y \<Rightarrow> (case mapE f xs of Inl e \<Rightarrow> Inl e | Inr ys \<Rightarrow> Inr (y # ys)))"

definition formatSearchObj ::
  "DateUtil \<Rightarrow> string \<Rightarrow> SuiteScriptColumns \<Rightarrow> NetSuiteParams \<Rightarrow> filterItem list \<Rightarrow> DefaultSort
   \<Rightarrow> (string \<times> string) list option \<Rightarrow> error + SearchRestletParams" where
  "formatSearchObj du ty Columns params inbuiltFilter defaultSort settingsOpt =
     (let settingsCopy = (case settingsOpt of None \<Rightarrow> [] | Some st \<Rightarrow> st);
          orderBy = orderBySearch params defaultSort
      in case mapE (\<lambda>(key, c). searchColumn orderBy key c) Columns of
           Inl e \<Rightarrow> Inl e
         | Inr cols \<Rightarrow>
             (let limit = (if CountOnly params = Some True then Fin 1
                           else if truthyNum (Limit params) then the (Limit params) else Fin 0)
              in case (case Filters params of
                         None \<Rightarrow> Inr []
                       | Some fps \<Rightarrow> getFiltersSearch du Columns fps) of
                   Inl e \<Rightarrow> Inl e
                 | Inr fs \<Rightarrow>
                     Inr \<lparr>searchType = ty,
                          filters = inbuiltFilter
                                    @ (if inbuiltFilter \<noteq> [] \<and> fs \<noteq> [] then [Tok ''AND''] else [])
                                    @ fs,
                          columns = filter (\<lambda>i. i \<noteq> []) cols,
                          countOnly = False,
                          maxResults = limit,
                          settings = settingsCopy\<rparr>))"

text \<open>\<^verbatim>\<open>a > b\<close> on numbers: false whenever one side is \<^verbatim>\<open>NaN\<close>.\<close>

fun greaterThan_js :: "jsnum \<Rightarrow> jsnum \<Rightarrow> bool" where
  "greaterThan_js (Fin a) (Fin b) = (a > b)"
| "greaterThan_js PosInf (Fin b) = True"
| "greaterThan_js PosInf NegInf = True"
| "greaterThan_js (Fin a) NegInf = True"
| "greaterThan_js x y = False"

text \<open>
  searchRestlet up to the request it sends: the descriptor of formatSearchObj, its
  defaults, and the ceiling on \<^verbatim>\<open>maxResults\<close>.
\<close>

definition searchRestletRequest ::
  "DateUtil \<Rightarrow> string \<Rightarrow> SuiteScriptColumns \<Rightarrow> NetSuiteParams \<Rightarrow> filterItem list \<Rightarrow> DefaultSort
   \<Rightarrow> (string \<times> string) list option \<Rightarrow> error + SearchRestletParams" where
  "searchRestletRequest du ty Columns params inbuiltFilter defaultSort settingsOpt =
     (case formatSearchObj du ty Columns params inbuiltFilter defaultSort settingsOpt of
        Inl e \<Rightarrow> Inl e
      | Inr p \<Rightarrow>
          (let p1 = p\<lparr>countOnly := (countOnly p \<or> False),
                      maxResults := (if truthy (JNum (maxResults p)) then maxResults p
                                     else MAX_ARRAY_ITEMS)\<rparr>
           in if greaterThan_js (maxResults p1) MAX_ARRAY_ITEMS
              then Inl (newCFError UserErr
                          (''Cannot fetch more than '' @ numberToString MAX_ARRAY_ITEMS
                             @ '' in a single request''))
              else Inr p1))"

section \<open>Result normalizer (utils/transform.ts)\<close>

text \<open>A raw row and a normalized row are objects: property names with their values.\<close>

text \<open>
  \<^verbatim>\<open>obj[key] = v\<close>: an existing property keeps its place. (An assignment to the
  name \<^verbatim>\<open>__proto__\<close>, which JavaScript treats apart, is not modelled; no column map
  has that name.)
\<close>

fun setProp :: "GenDictionary \<Rightarrow> string \<Rightarrow> jsval \<Rightarrow> GenDictionary" where
  "setProp [] k v = [(k, v)]"
| "setProp ((k', v') # ps) k v = (if k' = k then (k, v) # ps else (k', v') # setProp ps k v)"

definition getProp :: "GenDictionary \<Rightarrow> string \<Rightarrow> jsval" where
  "getProp obj k = (case map_of obj k of None \<Rightarrow> JUndefined | Some v \<Rightarrow> v)"

definition formatOr :: "string option \<Rightarrow> string" where
  "formatOr f = (case f of None \<Rightarrow> [] | Some t \<Rightarrow> t)"

text \<open>
  The body of the \<^verbatim>\<open>forEach\<close> of transform, for one declared property:
  \<open>sourceKey\<close> is \<^verbatim>\<open>field.name ?? propertyName\<close>, \<open>matchingKey\<close> the first key of
  the raw row that equals it up to case.
\<close>

definition sourceKey :: "string \<times> 'a ColumnBase_scheme \<Rightarrow> string" where
  "sourceKey p = (case name (snd p) of Some n \<Rightarrow> n | None \<Rightarrow> fst p)"

definition matchingKey :: "GenDictionary \<Rightarrow> string \<Rightarrow> string option" where
  "matchingKey obj sk = find (\<lambda>key. toLowerCase key = toLowerCase sk) (map fst obj)"

definition transformProperty ::
  "DateUtil \<Rightarrow> GenDictionary \<Rightarrow> GenDictionary \<Rightarrow> string \<times> 'a ColumnBase_scheme \<Rightarrow> GenDictionary" where
  "transformProperty du obj newObj p =
     (case matchingKey obj (sourceKey p) of
        None \<Rightarrow> newObj
      | Some mk \<Rightarrow>
          if mk \<noteq> [] then
            (let v = getProp obj mk
             in if v \<noteq> JNull \<and> v \<noteq> JUndefined then
                  (if type (snd p) = ''number'' then
                     setProp newObj (sourceKey p) (JNum (parseFloat (String_js v)))
                   else if type (snd p) = ''date'' \<and> format (snd p) \<noteq> None then
                     setProp newObj (sourceKey p)
                       (JStr (FormatToISO du (String_js v) (formatOr (format (snd p)))))
                   else if type (snd p) = ''boolean'' then
                     setProp newObj (sourceKey p)
                       (if String_js v = ''1'' then JBool True
                        else if String_js v = ''0'' then JBool False
                        else v)
                   else setProp newObj (sourceKey p) v)
                else newObj)
          else newObj)"

definition transform ::
  "DateUtil \<Rightarrow> GenDictionary list \<Rightarrow> (string \<times> 'a ColumnBase_scheme) list \<Rightarrow> GenDictionary list" where
  "transform du jsonArray propertyNames =
     map (\<lambda>obj. foldl (transformProperty du obj) [] propertyNames) jsonArray"

text \<open>\<^verbatim>\<open>obj[index]\<close> on an array: \<^verbatim>\<open>undefined\<close> beyond its end.\<close>

definition at_js :: "jsval list \<Rightarrow> nat \<Rightarrow> jsval" where
  "at_js obj i = (if i < length obj then obj ! i else JUndefined)"

text \<open>The \<^verbatim>\<open>forEach\<close> of transformArray from position \<open>index\<close> on.\<close>

fun transformArray_from ::
  "DateUtil \<Rightarrow> jsval list \<Rightarrow> nat \<Rightarrow> GenDictionary \<Rightarrow> (string \<times> 'a ColumnBase_scheme) list
   \<Rightarrow> GenDictionary" where
  "transformArray_from du obj index newObj [] = newObj"
| "transformArray_from du obj index newObj (p # rest) =
     transformArray_from du obj (Suc index)
       (if truthy (at_js obj index) then
          (if type (snd p) = ''number'' then
             setProp newObj (fst p) (JNum (parseFloat (String_js (at_js obj index))))
           else if type (snd p) = ''date'' \<and> format (snd p) \<noteq> None then
             setProp newObj (fst p)
               (JStr (FormatToISO du (String_js (at_js obj index)) (formatOr (format (snd p)))))
           else setProp newObj (fst p) (at_js obj index))
        else newObj)
       rest"

definition transformArray ::
  "DateUtil \<Rightarrow> jsval list list \<Rightarrow> (string \<times> 'a ColumnBase_scheme) list \<Rightarrow> GenDictionary list" where
  "transformArray du jsonArray propertyNames =
     map (\<lambda>obj. transformArray_from du obj 0 [] propertyNames) jsonArray"

section \<open>Hierarchy resolver (tools/accounts/GetAccountBalance.ts, getChildrenByNumber)\<close>

record AccountData =
  Id :: jsnum
  AccountNumber :: string
  Name :: string
  ParentNumber :: "string option"

text \<open>Collecting the results of the recursive calls; \<open>None\<close> if one does not return.\<close>

fun allSome :: "'a option list \<Rightarrow> 'a list option" where
  "allSome [] = Some []"
| "allSome (None # xs) = None"
| "allSome (Some x # xs) = (case allSome xs of None \<Rightarrow> None | Some ys \<Rightarrow> Some (x # ys))"

text \<open>
  The inner function \<^verbatim>\<open>findRecursively\<close>: the ids it pushes onto \<^verbatim>\<open>result\<close>, in
  order. The recursion has no guard against a cycle; the first argument bounds its
  depth, and \<open>None\<close> says that the bound was reached.
\<close>

fun findRecursively :: "nat \<Rightarrow> AccountData list \<Rightarrow> string \<Rightarrow> jsnum list option" where
  "findRecursively 0 accountData currentNumb = None"
| "findRecursively (Suc depth) accountData currentNumb =
     (let children =
            map Id (filter (\<lambda>node. ParentNumber node \<noteq> None \<and> ParentNumber node = Some currentNumb)
                      accountData)
      in case allSome (map (\<lambda>child. findRecursively depth accountData (numberToString child))
                         children) of
           None \<Rightarrow> None
         | Some pushed \<Rightarrow> Some (children @ concat pushed))"

definition getChildrenByNumber :: "nat \<Rightarrow> AccountData list \<Rightarrow> string \<Rightarrow> jsnum list option" where
  "getChildrenByNumber depth accountData Numb =
     (let result = (case find (\<lambda>node. AccountNumber node = Numb) accountData of
                      None \<Rightarrow> []
                    | Some selfAcc \<Rightarrow> [Id selfAcc])
      in case findRecursively depth accountData Numb of
           None \<Rightarrow> None
         | Some pushed \<Rightarrow> Some (result @ pushed))"

section \<open>Paged fetch loop (the loop of GetAccounts.register and GetAccountingPeriods.register)\<close>

text \<open>
  The result of \<^verbatim>\<open>executeSuiteQL\<close>. Offsets and counts are integers. The executor is
  a parameter: from its own state, the statement and the offset it gives a response or
  throws, and a new state. The loop keeps the list of the calls it has made; the pause
  of 100 ms before a call at a positive offset is not modelled. The loop has no bound
  on its iterations, so it is a partial function: \<open>None\<close> is a loop that never ends.
\<close>

record SuiteQLResult =
  totalCount :: int
  items :: "GenDictionary list"
  hasMore :: bool
  offset :: int
  count :: int

datatype LoopResult = CountResult int | TotalData "GenDictionary list"

partial_function (option) fetchLoop ::
  "('x \<Rightarrow> string \<Rightarrow> int \<Rightarrow> (error + SuiteQLResult) \<times> 'x) \<Rightarrow> DateUtil \<Rightarrow> string \<Rightarrow> SuiteQLColumns
   \<Rightarrow> NetSuiteParams \<Rightarrow> 'x \<Rightarrow> int \<Rightarrow> GenDictionary list \<Rightarrow> (string \<times> int) list
   \<Rightarrow> ((error + LoopResult) \<times> (string \<times> int) list \<times> 'x) option" where
  "fetchLoop executeSuiteQL du formattedSQL Columns input x dataOffset totalData calls =
     (case executeSuiteQL x formattedSQL dataOffset of
        (Inl e, x') \<Rightarrow> Some (Inl e, calls @ [(formattedSQL, dataOffset)], x')
      | (Inr data, x') \<Rightarrow>
          if CountOnly input = Some True
          then Some (Inr (CountResult (count data)), calls @ [(formattedSQL, dataOffset)], x')
          else if hasMore data
          then fetchLoop executeSuiteQL du formattedSQL Columns input x'
                 (offset data + count data) (totalData @ transform du (items data) Columns)
                 (calls @ [(formattedSQL, dataOffset)])
          else Some (Inr (TotalData (totalData @ transform du (items data) Columns)),
                     calls @ [(formattedSQL, dataOffset)], x'))"

definition pagedFetch ::
  "('x \<Rightarrow> string \<Rightarrow> int \<Rightarrow> (error + SuiteQLResult) \<times> 'x) \<Rightarrow> DateUtil \<Rightarrow> string \<Rightarrow> SuiteQLColumns
   \<Rightarrow> NetSuiteParams \<Rightarrow> 'x \<Rightarrow> ((error + LoopResult) \<times> (string \<times> int) list \<times> 'x) option" where
  "pagedFetch executeSuiteQL du formattedSQL Columns input x =
     fetchLoop executeSuiteQL du formattedSQL Columns input x 0 [] []"

section \<open>Tables of the specification and example inputs\<close>

text \<open>
  The structured-backend table of section 4.1 of the specification, one entry for each
  documented pair of data type and generic operator; for \<^verbatim>\<open>boolean\<close> the
  specification maps every operator to \<^verbatim>\<open>is\<close>.
\<close>

definition structured_table :: "((string \<times> string) \<times> string) list" where
  "structured_table =
     [((''number'', ''=''), ''EQUALTO''), ((''number'', ''!=''), ''NOTEQUALTO''),
      ((''number'', ''<''), ''LESSTHAN''), ((''number'', ''<=''), ''LESSTHANOREQUALTO''),
      ((''number'', ''>''), ''GREATERTHAN''), ((''number'', ''>=''), ''GREATERTHANOREQUALTO''),
      ((''date'', ''=''), ''ON''), ((''date'', ''!=''), ''NOTON''),
      ((''date'', ''<''), ''BEFORE''), ((''date'', ''<=''), ''ONORBEFORE''),
      ((''date'', ''>''), ''AFTER''), ((''date'', ''>=''), ''ONORAFTER''),
      ((''string'', ''=''), ''CONTAINS''), ((''string'', ''Like''), ''CONTAINS''),
      ((''string'', ''!=''), ''DOESNOTCONTAIN''), ((''string'', ''Not_Like''), ''DOESNOTCONTAIN''),
      ((''id'', ''=''), ''ANYOF''), ((''id'', ''Like''), ''ANYOF''),
      ((''id'', ''!=''), ''NONEOF''), ((''id'', ''Not_Like''), ''NONEOF'')]"

text \<open>
  Two predicates of the statements below: the object-keyed normalizer keeps a declared
  column when a key of the raw row matches it and the value there is neither
  \<^verbatim>\<open>null\<close> nor \<^verbatim>\<open>undefined\<close>; a projected column carries a sort marker when it
  has the property \<^verbatim>\<open>sort\<close>.
\<close>

definition keptObject :: "GenDictionary \<Rightarrow> string \<times> 'a ColumnBase_scheme \<Rightarrow> bool" where
  "keptObject obj p =
     (case matchingKey obj (sourceKey p) of
        None \<Rightarrow> False
      | Some mk \<Rightarrow> mk \<noteq> [] \<and> getProp obj mk \<noteq> JNull \<and> getProp obj mk \<noteq> JUndefined)"

definition hasSort :: "GenDictionary \<Rightarrow> bool" where
  "hasSort col = (''sort'' \<in> fst ` set col)"

text \<open>
  Example inputs. \<open>dateUtilStub\<close> stands in for the date functions in examples that
  have no date column. \<open>subsidiaryColumns\<close> is the column map of GetSubsidiaries;
  \<open>textualColumns\<close>, \<open>textualParams\<close>, \<open>normalizerColumns\<close> and
  \<open>accountsExample\<close> are the examples of section 8 of the specification.
\<close>

definition dateUtilStub :: DateUtil where
  "dateUtilStub = \<lparr>ISOToFormat = (\<lambda>date fmt. date), FormatToISO = (\<lambda>date fmt. date)\<rparr>"

definition emptyParams :: NetSuiteParams where
  "emptyParams = \<lparr>CountOnly = None, OrderBy = None, Filters = None, Limit = None, Offset = None\<rparr>"

definition scriptColumn :: "string \<Rightarrow> string \<Rightarrow> SuiteScriptColumn" where
  "scriptColumn n t =
     \<lparr>name = Some n, type = t, format = None, filterOnly = None, filtertype = None,
      formula = None, filterformula = None, txtFlag = None, join = None, summary = None,
      enum = None\<rparr>"

definition subsidiaryColumns :: SuiteScriptColumns where
  "subsidiaryColumns =
     [(''Id'', scriptColumn ''internalid'' ''id''),
      (''Name'', scriptColumn ''namenohierarchy'' ''string''),
      (''ParentId'', scriptColumn ''parent'' ''id'')]"

definition defaultSortId :: DefaultSort where
  "defaultSortId = \<lparr>DefaultColumn = ''Id'', DefaultSortOrder = ''ASC''\<rparr>"

definition sqlColumn :: "string \<Rightarrow> string \<Rightarrow> SuiteQLColumn" where
  "sqlColumn s t = \<lparr>name = None, type = t, format = None, filterOnly = None, sql = s\<rparr>"

definition textualColumns :: SuiteQLColumns where
  "textualColumns =
     [(''Id'', sqlColumn ''a.Id'' ''number''), (''Name'', sqlColumn ''a.Name'' ''string'')]"

definition textualParams :: NetSuiteParams where
  "textualParams =
     emptyParams\<lparr>Filters := Some [\<lparr>Column = ''Name'', Operator = ''='', Value = ''Acme''\<rparr>]\<rparr>"

definition normalizerColumns :: "(string \<times> ColumnBase) list" where
  "normalizerColumns =
     [(''AccountNumber'',
       \<lparr>name = Some ''acctnumber'', type = ''string'', format = None, filterOnly = None\<rparr>),
      (''Amount'', \<lparr>name = None, type = ''number'', format = None, filterOnly = None\<rparr>)]"

definition falsyColumns :: "(string \<times> ColumnBase) list" where
  "falsyColumns =
     [(''Amount'', \<lparr>name = None, type = ''number'', format = None, filterOnly = None\<rparr>),
      (''Flag'', \<lparr>name = None, type = ''boolean'', format = None, filterOnly = None\<rparr>),
      (''Memo'', \<lparr>name = None, type = ''string'', format = None, filterOnly = None\<rparr>)]"

definition accountsExample :: "AccountData list" where
  "accountsExample =
     [\<lparr>Id = Fin 1, AccountNumber = ''4000'', Name = ''Sales'', ParentNumber = None\<rparr>,
      \<lparr>Id = Fin 2, AccountNumber = ''4010'', Name = ''Sales A'', ParentNumber = Some ''4000''\<rparr>,
      \<lparr>Id = Fin 3, AccountNumber = ''4011'', Name = ''Sales B'', ParentNumber = Some ''4010''\<rparr>]"

text \<open>
  A stub executor whose state is the number of calls made so far: it reports more data
  on its first two calls and none on the third, and echoes the offset it is given.
\<close>

definition stubPage :: "nat \<Rightarrow> GenDictionary list" where
  "stubPage n =
     (if n = 0 then [[(''NAME'', JStr ''a'')], [(''NAME'', JStr ''b'')]]
      else if n = 1 then [[(''NAME'', JStr ''c'')], [(''NAME'', JStr ''d'')]]
      else [[(''NAME'', JStr ''e'')]])"

definition stubExecutor :: "nat \<Rightarrow> string \<Rightarrow> int \<Rightarrow> (error + SuiteQLResult) \<times> nat" where
  "stubExecutor n q off =
     (Inr \<lparr>totalCount = 5, items = stubPage n, hasMore = (n < 2), offset = off,
           count = int (length (stubPage n))\<rparr>, Suc n)"

text \<open>
  The same stub, except that every response reports the offset 0 whatever offset it
  was asked for.
\<close>

definition fixedOffsetExecutor :: "nat \<Rightarrow> string \<Rightarrow> int \<Rightarrow> (error + SuiteQLResult) \<times> nat" where
  "fixedOffsetExecutor n q off =
     (Inr \<lparr>totalCount = 5, items = stubPage n, hasMore = (n < 2), offset = 0,
           count = int (length (stubPage n))\<rparr>, Suc n)"

text \<open>The offsets of the calls a run of the loop has made, in order.\<close>

definition callOffsets ::
  "((error + LoopResult) \<times> (string \<times> int) list \<times> 'x) option \<Rightarrow> int list" where
  "callOffsets r = (case r of None \<Rightarrow> [] | Some (res, calls, x) \<Rightarrow> map snd calls)"

definition stubColumns :: SuiteQLColumns where
  "stubColumns = [(''Name'', sqlColumn ''a.Name'' ''string'')]"

section \<open>Evaluation lemmas\<close>

lemma numberToString_2: "numberToString (Fin 2) = ''2''"
  by code_simp

lemma numberToString_0: "numberToString (Fin 0) = ''0''"
  by code_simp

lemma parseFloat_0: "parseFloat ''0'' = Fin 0"
  by (simp add: parseFloat_def parseUnsigned_def isSpace_def isDigit_def digitsToNat_def
      digitVal_def parseExponent_def scale10_def fromDecimal_def)

lemma parseFloat_example: "parseFloat ''123.45'' = Fin 123.45"
  by (simp add: parseFloat_def parseUnsigned_def isSpace_def isDigit_def digitsToNat_def
      digitVal_def parseExponent_def scale10_def fromDecimal_def)

lemma toLowerCase_examples:
  "toLowerCase ''ACCTNUMBER'' = ''acctnumber''"
  "toLowerCase ''acctnumber'' = ''acctnumber''"
  "toLowerCase ''AMOUNT'' = ''amount''"
  "toLowerCase ''Amount'' = ''amount''"
  "toLowerCase ''FLAG'' = ''flag''"
  "toLowerCase ''Flag'' = ''flag''"
  "toLowerCase ''MEMO'' = ''memo''"
  "toLowerCase ''Memo'' = ''memo''"
  "toLowerCase ''NAME'' = ''name''"
  "toLowerCase ''Name'' = ''name''"
  by code_simp+

lemmas structured_eval =
  getColumn_def objectPrototypeNames_def inheritedScriptColumn_def formatSearchObj_def subsidiaryColumns_def emptyParams_def scriptColumn_def searchColumn_def
  orderBySearch_def getFiltersSearch_def truthyStr_def jsStr_def jsBool_def defaultSortId_def

lemmas normalizer_eval =
  transform_def transformProperty_def sourceKey_def matchingKey_def getProp_def
  toLowerCase_examples

section \<open>Operator translator: results\<close>

text \<open>
  C2, as stated, fails on the textual backend: for a number column the operator
  \<^verbatim>\<open>Like\<close> is neither returned unchanged nor rejected with an error; it becomes
  \<^verbatim>\<open>LIKE\<close>, because the code tests \<^verbatim>\<open>operator === 'Like'\<close> without looking at
  the data type.
\<close>

theorem getOperator_textual_Like_counterexample:
  "getOperator Sql ''number'' ''Like'' = Inr ''LIKE''
   \<and> getOperator Sql ''number'' ''Like'' \<noteq> Inr ''Like''
   \<and> \<not> isl (getOperator Sql ''number'' ''Like'')"
  by (simp add: getOperator_def)

text \<open>
  C2, amended. On the textual backend the translator never fails: \<^verbatim>\<open>Like\<close> gives
  \<^verbatim>\<open>LIKE\<close> and \<^verbatim>\<open>Not_Like\<close> gives \<^verbatim>\<open>NOT LIKE\<close> for every data type,
  \<^verbatim>\<open>=\<close> and \<^verbatim>\<open>!=\<close> give them for the data type \<^verbatim>\<open>string\<close>, and every other
  operator is returned unchanged. On the structured backend \<^verbatim>\<open>boolean\<close> gives
  \<^verbatim>\<open>is\<close> for every operator, every other documented pair gives the token of the
  table, and every pair outside the table fails with an \<^verbatim>\<open>AIErr\<close> error.
\<close>

theorem getOperator_table:
  "getOperator Sql dt operator =
     Inr (if operator = ''Like'' \<or> (operator = ''='' \<and> dt = ''string'') then ''LIKE''
          else if operator = ''Not_Like'' \<or> (operator = ''!='' \<and> dt = ''string'') then ''NOT LIKE''
          else operator)
   \<and> getOperator Script dt operator =
     (if dt = ''boolean'' then Inr ''is''
      else case map_of structured_table (dt, operator) of
             Some tok \<Rightarrow> Inr tok
           | None \<Rightarrow> Inl (CFError AIErr
                           (''AIErr:Operator '' @ operator @ '' for datetype '' @ dt
                              @ '' not found for script'')))"
  by (simp add: getOperator_def structured_table_def operatorNotFound_def newCFError_def)

section \<open>Hierarchy resolver: results\<close>

text \<open>
  C1 says that expanding from \<^verbatim>\<open>"4000"\<close> in the three-account example yields the ids
  1, 2 and 3. The code recurses with \<^verbatim>\<open>child.toString()\<close>, the child's id, where
  the next level is linked by the child's account number: nothing has the parent number
  \<^verbatim>\<open>"2"\<close>, so the expansion ends after one level and account 3 is never reached, at
  whatever depth the recursion is allowed.
\<close>

theorem getChildrenByNumber_one_level:
  "getChildrenByNumber (Suc (Suc depth)) accountsExample ''4000'' = Some [Fin 1, Fin 2]"
  by (simp add: getChildrenByNumber_def accountsExample_def numberToString_2)

section \<open>Query compilers: results\<close>

lemma getFiltersSQL_from_total: "\<exists>s. getFiltersSQL_from du Columns acc fs = Inr s"
  by (induction fs arbitrary: acc) (auto simp: getOperator_def split: option.splits)

text \<open>
  The textual path never throws, and it skips a filter whose column is neither in the
  column map nor an inherited property name.
\<close>

lemma getFiltersSQL_from_skip:
  "map_of Columns (Column fltr) = None \<Longrightarrow> map_of objectPrototypeNames (Column fltr) = None
   \<Longrightarrow> getFiltersSQL_from du Columns acc (fltr # rest) = getFiltersSQL_from du Columns acc rest"
  by (simp add: getColumn_def)

lemma whereClause_total: "\<exists>w. whereClause du Columns params inbuiltFilter = Inr w"
proof (cases "Filters params")
  case None
  then show ?thesis by (simp add: whereClause_def)
next
  case (Some fs)
  obtain s where "getFiltersSQL_from du Columns [] fs = Inr s"
    using getFiltersSQL_from_total by blast
  with Some show ?thesis by (simp add: whereClause_def getFiltersSQL_def)
qed

text \<open>
  The structured path throws on the first filter whose column is not in the map: a
  TypeError, or for an inherited property name the error of getOperator.
\<close>

lemma getFiltersSearch_unknown:
  "map_of Columns (Column fltr) = None \<Longrightarrow> map_of objectPrototypeNames (Column fltr) = None
   \<Longrightarrow> getFiltersSearch du Columns (fltr # rest) = Inl TypeError"
  by (simp add: getFiltersSearch_def getColumn_def)

lemma getFiltersSearch_inherited:
  "map_of Columns (Column fltr) = None \<Longrightarrow> map_of objectPrototypeNames (Column fltr) = Some n
   \<Longrightarrow> getFiltersSearch du Columns (fltr # rest)
       = Inl (operatorNotFound Script ''undefined'' (Operator fltr))"
  by (simp add: getFiltersSearch_def getColumn_def inheritedScriptColumn_def getOperator_def)

text \<open>
  C3 says that in both compiler paths a filter on a column absent from the column map
  is skipped and is not fatal. The structured path has no such check: for the column
  map of GetSubsidiaries and the single filter \<^verbatim>\<open>{Column:"Nonexistent", Operator:"=",
  Value:"1"}\<close>, reading \<^verbatim>\<open>Columns[filter.Column].filterformula\<close> throws a TypeError and no
  descriptor is produced.
\<close>

theorem formatSearchObj_unknown_filter_column_throws:
  "formatSearchObj du ''subsidiary'' subsidiaryColumns
     (emptyParams\<lparr>Filters := Some [\<lparr>Column = ''Nonexistent'', Operator = ''='', Value = ''1''\<rparr>]\<rparr>)
     [] defaultSortId None = Inl TypeError"
  by (simp add: structured_eval)

lemma formatSearchObj_fields:
  "formatSearchObj du ty Columns params inbuiltFilter defaultSort st = Inr d
   \<Longrightarrow> countOnly d = False
       \<and> maxResults d = (if CountOnly params = Some True then Fin 1
                          else if truthyNum (Limit params) then the (Limit params) else Fin 0)"
  by (auto simp: formatSearchObj_def Let_def split: sum.splits)

text \<open>
  C5 says that with the count-only flag set the descriptor has \<^verbatim>\<open>maxResults\<close> 1 and
  \<^verbatim>\<open>countOnly\<close> true. For the request \<^verbatim>\<open>{CountOnly:true}\<close> on the column map of
  GetSubsidiaries the cap is 1, but \<^verbatim>\<open>countOnly\<close> is false, in the descriptor of
  formatSearchObj and in the request searchRestlet sends: the field is initialised to
  false and never assigned.
\<close>

theorem formatSearchObj_countOnly_stays_false:
  "map_sum id (\<lambda>d. (countOnly d, maxResults d))
     (formatSearchObj du ''subsidiary'' subsidiaryColumns (emptyParams\<lparr>CountOnly := Some True\<rparr>)
        [] defaultSortId None) = Inr (False, Fin 1)
   \<and> map_sum id (\<lambda>d. (countOnly d, maxResults d))
     (searchRestletRequest du ''subsidiary'' subsidiaryColumns (emptyParams\<lparr>CountOnly := Some True\<rparr>)
        [] defaultSortId None) = Inr (False, Fin 1)"
  by (simp add: searchRestletRequest_def structured_eval MAX_ARRAY_ITEMS_def)

text \<open>
  The textual path falls back to the default sort when the requested order column is
  not in the column map and the default column is.
\<close>

lemma orderByClause_fallback:
  assumes "CountOnly params \<noteq> Some True" and "OrderBy params = Some ob"
    and "map_of Columns (OrderColumn ob) = None"
    and "map_of objectPrototypeNames (OrderColumn ob) = None"
    and "map_of Columns (DefaultColumn defaultSort) = Some c"
  shows "orderByClause Columns params defaultSort =
           ''ORDER BY '' @ sql c @ '' '' @ DefaultSortOrder defaultSort"
  using assms by (simp add: orderByClause_def orderBySQL_def getColumn_def)

text \<open>
  For an inherited property name the textual path does not skip or fall back: the
  filter and the order are rendered on the text \<^verbatim>\<open>undefined\<close>.
\<close>

lemma textual_inherited_name_example:
  "getFiltersSQL du textualColumns [\<lparr>Column = ''constructor'', Operator = ''='', Value = ''1''\<rparr>]
     = Inr (''undefined =  '' @ [CHR 0x27] @ ''1'' @ [CHR 0x27] @ '' '')
   \<and> orderByClause textualColumns
       (emptyParams\<lparr>OrderBy := Some \<lparr>OrderColumn = ''constructor'', SortOrder = Some ''DESC''\<rparr>\<rparr>)
       defaultSortId = ''ORDER BY undefined DESC''"
  by (simp add: getFiltersSQL_def getColumn_def objectPrototypeNames_def inheritedSQLColumn_def
      textualColumns_def sqlColumn_def getOperator_def formattedValueSQL_def orderByClause_def
      orderBySQL_def emptyParams_def strOf_def)

lemma searchColumn_no_sort:
  "searchColumn orderBy key c = Inr col \<Longrightarrow> key \<noteq> fst orderBy \<Longrightarrow> \<not> hasSort col"
  by (auto simp: searchColumn_def hasSort_def split: if_splits sum.splits list.splits)

lemma mapE_no_sort:
  "mapE (\<lambda>(key, c). searchColumn orderBy key c) Columns = Inr cols
   \<Longrightarrow> fst orderBy \<notin> fst ` set Columns \<Longrightarrow> col \<in> set cols \<Longrightarrow> \<not> hasSort col"
proof (induction Columns arbitrary: cols)
  case Nil
  then show ?case by simp
next
  case (Cons kc Columns)
  obtain key c where kc: "kc = (key, c)" by (cases kc)
  from Cons.prems(1) kc obtain col0 cols0 where
    h: "searchColumn orderBy key c = Inr col0"
       "mapE (\<lambda>(key, c). searchColumn orderBy key c) Columns = Inr cols0"
       "cols = col0 # cols0"
    by (auto split: sum.splits)
  from Cons.prems(2) kc have k: "key \<noteq> fst orderBy" "fst orderBy \<notin> fst ` set Columns"
    by auto
  from Cons.prems(3) h(3) consider "col = col0" | "col \<in> set cols0" by auto
  then show ?case
  proof cases
    case 1
    with h(1) k(1) show ?thesis by (simp add: searchColumn_no_sort)
  next
    case 2
    with Cons.IH [OF h(2) k(2)] show ?thesis .
  qed
qed

lemma formatSearchObj_no_sort:
  assumes "formatSearchObj du ty Columns params inbuiltFilter defaultSort st = Inr d"
    and "fst (orderBySearch params defaultSort) \<notin> fst ` set Columns"
    and "col \<in> set (columns d)"
  shows "\<not> hasSort col"
proof -
  from assms(1) obtain cols where
    c: "mapE (\<lambda>(key, c). searchColumn (orderBySearch params defaultSort) key c) Columns = Inr cols"
       "columns d = filter (\<lambda>i. i \<noteq> []) cols"
    by (auto simp: formatSearchObj_def Let_def split: sum.splits)
  from assms(3) c(2) have "col \<in> set cols" by simp
  with mapE_no_sort [OF c(1) assms(2)] show ?thesis by simp
qed

text \<open>
  The structured path attaches no sort marker at all when the requested order column is
  not in the column map.
\<close>

lemma formatSearchObj_unknown_order_column:
  assumes "formatSearchObj du ty Columns params inbuiltFilter defaultSort st = Inr d"
    and "CountOnly params \<noteq> Some True" and "OrderBy params = Some ob"
    and "OrderColumn ob \<notin> fst ` set Columns" and "col \<in> set (columns d)"
  shows "\<not> hasSort col"
proof -
  from assms(2,3) have "fst (orderBySearch params defaultSort) = OrderColumn ob"
    by (simp add: orderBySearch_def)
  with assms(4) have "fst (orderBySearch params defaultSort) \<notin> fst ` set Columns"
    by simp
  from formatSearchObj_no_sort [OF assms(1) this assms(5)] show ?thesis .
qed

text \<open>
  C6 says that for an unknown order column both compilers fall back to the default
  sort. The structured compiler does not look the requested column up: for
  \<^verbatim>\<open>OrderBy:{Column:"Nonexistent", SortOrder:"DESC"}\<close> and the default sort
  \<^verbatim>\<open>{Column:"Id", SortOrder:"ASC"}\<close> no projected column carries a sort marker, the
  default column \<^verbatim>\<open>Id\<close> included.
\<close>

theorem formatSearchObj_unknown_order_column_no_sort:
  "map_sum id (\<lambda>d. map hasSort (columns d))
     (formatSearchObj du ''subsidiary'' subsidiaryColumns
        (emptyParams\<lparr>OrderBy := Some \<lparr>OrderColumn = ''Nonexistent'', SortOrder = Some ''DESC''\<rparr>\<rparr>)
        [] defaultSortId None) = Inr [False, False, False]"
  by (simp add: structured_eval hasSort_def)

section \<open>Result normalizer: results\<close>

text \<open>
  C7 says that the object-keyed normalizer turns the raw row
  \<^verbatim>\<open>{ACCTNUMBER:"4010", AMOUNT:"123.45"}\<close> into
  \<^verbatim>\<open>{AccountNumber:"4010", Amount:123.45}\<close>. The key match is case-insensitive and the
  amount is coerced, but the code stores each value under \<^verbatim>\<open>sourceKey\<close>, the backend
  field name, so the first property of the output is \<^verbatim>\<open>acctnumber\<close>, not the logical
  name \<^verbatim>\<open>AccountNumber\<close>.
\<close>

theorem transform_keys_by_backend_name:
  "transform du [[(''ACCTNUMBER'', JStr ''4010''), (''AMOUNT'', JStr ''123.45'')]] normalizerColumns
   = [[(''acctnumber'', JStr ''4010''), (''Amount'', JNum (Fin 123.45))]]"
  by (simp add: normalizer_eval normalizerColumns_def parseFloat_example)

text \<open>
  C4, as stated, fails for the object-keyed variant, which tests the raw value against
  \<^verbatim>\<open>null\<close> and \<^verbatim>\<open>undefined\<close> only: the falsy values \<^verbatim>\<open>0\<close>, \<^verbatim>\<open>false\<close> and
  \<^verbatim>\<open>""\<close> of the raw row all appear in the normalized row.
\<close>

theorem transform_keeps_falsy_counterexample:
  "transform dateUtilStub
     [[(''AMOUNT'', JNum (Fin 0)), (''FLAG'', JBool False), (''MEMO'', JStr [])]] falsyColumns
   = [[(''Amount'', JNum (Fin 0)), (''Flag'', JBool False), (''Memo'', JStr [])]]"
  by (simp add: normalizer_eval falsyColumns_def numberToString_0 parseFloat_0)

lemma keys_setProp: "fst ` set (setProp ps k v) = insert k (fst ` set ps)"
proof (induction ps)
  case Nil
  then show ?case by simp
next
  case (Cons q ps)
  obtain k' v' where q: "q = (k', v')" by (cases q)
  show ?case
  proof (cases "k' = k")
    case True
    with q show ?thesis by simp
  next
    case False
    with q Cons.IH show ?thesis by (simp add: insert_commute)
  qed
qed

lemma keys_transformProperty:
  "fst ` set (transformProperty du obj newObj p) =
     (if keptObject obj p then insert (sourceKey p) (fst ` set newObj) else fst ` set newObj)"
  by (simp add: transformProperty_def keptObject_def keys_setProp Let_def split: option.splits)

lemma keys_foldl_transformProperty:
  "fst ` set (foldl (transformProperty du obj) acc props) =
     fst ` set acc \<union> sourceKey ` {p \<in> set props. keptObject obj p}"
proof (induction props arbitrary: acc)
  case Nil
  then show ?case by simp
next
  case (Cons p props)
  show ?case
    unfolding foldl_Cons Cons.IH keys_transformProperty by auto
qed

lemma truthy_positions_Cons:
  "{fst ((p # props) ! j) | j. j < length (p # props) \<and> truthy (at_js obj (i + j))} =
     (if truthy (at_js obj i) then {fst p} else {})
     \<union> {fst (props ! j) | j. j < length props \<and> truthy (at_js obj (Suc i + j))}"
  (is "?L = ?R")
proof
  show "?L \<subseteq> ?R"
  proof
    fix k assume "k \<in> ?L"
    then obtain j where j: "k = fst ((p # props) ! j)" "j < length (p # props)"
      "truthy (at_js obj (i + j))" by blast
    show "k \<in> ?R"
    proof (cases j)
      case 0
      with j show ?thesis by simp
    next
      case (Suc j')
      with j have "k = fst (props ! j')" "j' < length props" "truthy (at_js obj (Suc i + j'))"
        by simp_all
      then show ?thesis by blast
    qed
  qed
  show "?R \<subseteq> ?L"
  proof
    fix k assume "k \<in> ?R"
    then consider "truthy (at_js obj i)" "k = fst p"
      | j' where "k = fst (props ! j')" "j' < length props" "truthy (at_js obj (Suc i + j'))"
      by (auto split: if_splits)
    then show "k \<in> ?L"
    proof cases
      case 1
      then have "k = fst ((p # props) ! 0) \<and> 0 < length (p # props) \<and> truthy (at_js obj (i + 0))"
        by simp
      then show ?thesis by blast
    next
      case 2
      then have "k = fst ((p # props) ! Suc j') \<and> Suc j' < length (p # props)
                 \<and> truthy (at_js obj (i + Suc j'))"
        by simp
      then show ?thesis by blast
    qed
  qed
qed

lemma keys_transformArray_from:
  "fst ` set (transformArray_from du obj i acc props) =
     fst ` set acc \<union> {fst (props ! j) | j. j < length props \<and> truthy (at_js obj (i + j))}"
proof (induction props arbitrary: i acc)
  case Nil
  then show ?case by simp
next
  case (Cons p props)
  show ?case
    unfolding transformArray_from.simps Cons.IH truthy_positions_Cons
    by (auto simp: keys_setProp)
qed

text \<open>
  C4, amended. The positional-array variant omits a column exactly when the value at
  its position in the raw row is falsy (\<^verbatim>\<open>0\<close>, \<^verbatim>\<open>NaN\<close>, \<^verbatim>\<open>false\<close>, \<^verbatim>\<open>""\<close>,
  \<^verbatim>\<open>null\<close>, \<^verbatim>\<open>undefined\<close>, or a position beyond the end of the row). The
  object-keyed variant omits a column exactly when no key of the raw row matches it, or
  the value there is \<^verbatim>\<open>null\<close> or \<^verbatim>\<open>undefined\<close>; the values \<^verbatim>\<open>0\<close>,
  \<^verbatim>\<open>false\<close> and \<^verbatim>\<open>""\<close> are kept. Stated on the property names of each normalized
  row.
\<close>

theorem normalizer_presence:
  "map (\<lambda>row. fst ` set row) (transformArray du rows props) =
     map (\<lambda>obj. {fst (props ! j) | j. j < length props \<and> truthy (at_js obj j)}) rows
   \<and> map (\<lambda>row. fst ` set row) (transform du objs props') =
     map (\<lambda>obj. sourceKey ` {p \<in> set props'. keptObject obj p}) objs"
  by (simp add: transformArray_def transform_def keys_transformArray_from
      keys_foldl_transformProperty)

section \<open>Textual compiler on the examples: results\<close>

lemma startsWith_append: "startsWith (t @ b) t"
  by (induction t) auto

lemma includes_js_startsWith: "startsWith s t \<Longrightarrow> includes_js s t"
  by (cases s) (auto elim: startsWith.elims)

lemma includes_js_append: "includes_js (a @ t @ b) t"
  by (induction a) (auto simp: includes_js_startsWith startsWith_append)

lemma whereClause_example:
  "whereClause du textualColumns textualParams inbuiltFilter =
     Inr (''WHERE '' @ (if inbuiltFilter \<noteq> [] then '' '' @ inbuiltFilter @ '' AND '' else [])
            @ ''a.Name LIKE  '%Acme%' '')"
  by (simp add: whereClause_def textualColumns_def textualParams_def emptyParams_def
      sqlColumn_def getFiltersSQL_def getColumn_def getOperator_def formattedValueSQL_def)

text \<open>
  C8, as stated, fails: with no inbuilt filter the WHERE fragment of the example is
  \<^verbatim>\<open>WHERE a.Name LIKE  '%Acme%' \<close>, with two spaces after \<^verbatim>\<open>LIKE\<close> (one from the
  operator, one from the formatted value), and the text \<^verbatim>\<open>a.Name LIKE '%Acme%'\<close> with a
  single space does not occur in it.
\<close>

theorem whereClause_single_space_counterexample:
  "whereClause dateUtilStub textualColumns textualParams [] = Inr ''WHERE a.Name LIKE  '%Acme%' ''
   \<and> \<not> includes_js ''WHERE a.Name LIKE  '%Acme%' '' (''a.Name LIKE '%Acme%'' @ [CHR 0x27])"
  by (simp add: whereClause_example)

text \<open>
  C8, amended: for every inbuilt filter, the WHERE fragment of the example contains
  \<^verbatim>\<open>a.Name LIKE  '%Acme%'\<close>, the string equality rendered as \<^verbatim>\<open>LIKE\<close>, then two
  spaces, then the value between wildcard characters.
\<close>

theorem whereClause_contains_like:
  "\<exists>w. whereClause du textualColumns textualParams inbuiltFilter = Inr w
       \<and> includes_js w (''a.Name LIKE  '%Acme%'' @ [CHR 0x27])"
proof -
  let ?pre = "''WHERE '' @ (if inbuiltFilter \<noteq> [] then '' '' @ inbuiltFilter @ '' AND '' else [])"
  have "includes_js (?pre @ (''a.Name LIKE  '%Acme%'' @ [CHR 0x27]) @ '' '')
          (''a.Name LIKE  '%Acme%'' @ [CHR 0x27])"
    by (rule includes_js_append)
  moreover have "?pre @ (''a.Name LIKE  '%Acme%'' @ [CHR 0x27]) @ '' ''
                 = ?pre @ ''a.Name LIKE  '%Acme%' ''"
    by simp
  ultimately show ?thesis
    unfolding whereClause_example by auto
qed

section \<open>Count mode: results\<close>

text \<open>
  In count mode the structured compiler resolves the order to \<^verbatim>\<open>['', '']\<close> and
  compares \<^verbatim>\<open>key === OrderBy[0]\<close>. A column map is a constant of its tool, and every
  logical name in one is a non-empty identifier, so the comparison never holds; the
  statement on the structured compiler below therefore speaks of column maps without an
  empty logical name. For a map with one, which no request can supply, that column
  would receive the property \<^verbatim>\<open>sort\<close> with the empty direction:
\<close>

lemma formatSearchObj_empty_logical_name:
  "formatSearchObj dateUtilStub ''subsidiary'' [([], scriptColumn ''internalid'' ''id'')]
     (emptyParams\<lparr>CountOnly := Some True\<rparr>) [] defaultSortId None =
   Inr \<lparr>searchType = ''subsidiary'', filters = [],
        columns = [[(''name'', JStr ''internalid''), (''txt'', JUndefined), (''join'', JUndefined),
                    (''summary'', JUndefined), (''formula'', JUndefined), (''sort'', JStr [])]],
        countOnly = False, maxResults = Fin 1, settings = []\<rparr>"
  by (simp add: structured_eval)

text \<open>
  C9. For every request with \<^verbatim>\<open>CountOnly:true\<close>, whatever its other parameters: the
  textual compiler's order clause is empty, its column list is exactly
  \<^verbatim>\<open>COUNT(*) AS Count\<close> with no row-limit directive, and the statement it returns is the
  template with these two and the WHERE fragment substituted; the structured compiler,
  when it returns a descriptor, attaches a sort marker to no column (for the column
  maps of the tools, whose logical names are not empty).
\<close>

theorem countOnly_no_order:
  assumes "CountOnly params = Some True"
  shows "orderByClause Columns params defaultSort = []
         \<and> columnsClause Columns params = ''COUNT(*) AS Count''
         \<and> (\<exists>w. whereClause du Columns params inbuiltFilter = Inr w
                \<and> formatSQL du template Columns params inbuiltFilter defaultSort =
                    Inr (replace (replace (replace template ''{Columns}'' ''COUNT(*) AS Count'')
                                    ''{OrderBy}'' [])
                           ''{Filters}'' w))
         \<and> ([] \<notin> fst ` set SColumns
              \<longrightarrow> formatSearchObj du ty SColumns params inbuiltSearch defaultSort st = Inr d
              \<longrightarrow> (\<forall>col \<in> set (columns d). \<not> hasSort col))"
proof -
  have o: "orderByClause Columns params defaultSort = []"
    using assms by (simp add: orderByClause_def orderBySQL_def)
  have c: "columnsClause Columns params = ''COUNT(*) AS Count''"
    using assms by (simp add: columnsClause_def)
  obtain w where w: "whereClause du Columns params inbuiltFilter = Inr w"
    using whereClause_total by blast
  have f: "formatSQL du template Columns params inbuiltFilter defaultSort =
             Inr (replace (replace (replace template ''{Columns}'' ''COUNT(*) AS Count'')
                             ''{OrderBy}'' [])
                    ''{Filters}'' w)"
    by (simp add: formatSQL_def o c w)
  have ob: "fst (orderBySearch params defaultSort) = []"
    using assms by (simp add: orderBySearch_def)
  have s: "[] \<notin> fst ` set SColumns
           \<longrightarrow> formatSearchObj du ty SColumns params inbuiltSearch defaultSort st = Inr d
           \<longrightarrow> (\<forall>col \<in> set (columns d). \<not> hasSort col)"
    using formatSearchObj_no_sort [of du ty SColumns params inbuiltSearch defaultSort st d] ob
    by auto
  from o c w f s show ?thesis by blast
qed

lemma map_all_False: "\<forall>x \<in> set xs. \<not> P x \<Longrightarrow> map P xs = replicate (length xs) False"
  by (induction xs) auto

lemma formatSearchObj_count_example:
  "formatSearchObj dateUtilStub ''subsidiary'' subsidiaryColumns
     (emptyParams\<lparr>CountOnly := Some True,
                  OrderBy := Some \<lparr>OrderColumn = ''Name'', SortOrder = Some ''DESC''\<rparr>,
                  Limit := Some (Fin 50)\<rparr>) [] defaultSortId None =
   Inr \<lparr>searchType = ''subsidiary'', filters = [],
        columns =
          [[(''name'', JStr ''internalid''), (''txt'', JUndefined), (''join'', JUndefined),
            (''summary'', JUndefined), (''formula'', JUndefined)],
           [(''name'', JStr ''namenohierarchy''), (''txt'', JUndefined), (''join'', JUndefined),
            (''summary'', JUndefined), (''formula'', JUndefined)],
           [(''name'', JStr ''parent''), (''txt'', JUndefined), (''join'', JUndefined),
            (''summary'', JUndefined), (''formula'', JUndefined)]],
        countOnly = False, maxResults = Fin 1, settings = []\<rparr>"
  by (simp add: structured_eval)

text \<open>
  C9 at a request with \<^verbatim>\<open>CountOnly:true\<close>, an order on \<^verbatim>\<open>Name\<close> and a limit of
  50, on the column map of GetSubsidiaries.
\<close>

theorem countOnly_no_order_witness:
  "orderByClause textualColumns
     (emptyParams\<lparr>CountOnly := Some True,
                  OrderBy := Some \<lparr>OrderColumn = ''Name'', SortOrder = Some ''DESC''\<rparr>,
                  Limit := Some (Fin 50)\<rparr>) defaultSortId = []
   \<and> columnsClause textualColumns
     (emptyParams\<lparr>CountOnly := Some True,
                  OrderBy := Some \<lparr>OrderColumn = ''Name'', SortOrder = Some ''DESC''\<rparr>,
                  Limit := Some (Fin 50)\<rparr>) = ''COUNT(*) AS Count''
   \<and> map hasSort
       (columns (projr (formatSearchObj dateUtilStub ''subsidiary'' subsidiaryColumns
          (emptyParams\<lparr>CountOnly := Some True,
                       OrderBy := Some \<lparr>OrderColumn = ''Name'', SortOrder = Some ''DESC''\<rparr>,
                       Limit := Some (Fin 50)\<rparr>) [] defaultSortId None)))
     = [False, False, False]"
proof -
  let ?p = "emptyParams\<lparr>CountOnly := Some True,
                         OrderBy := Some \<lparr>OrderColumn = ''Name'', SortOrder = Some ''DESC''\<rparr>,
                         Limit := Some (Fin 50)\<rparr>"
  let ?d = "projr (formatSearchObj dateUtilStub ''subsidiary'' subsidiaryColumns ?p []
                     defaultSortId None)"
  have h: "CountOnly ?p = Some True" by simp
  have k: "[] \<notin> fst ` set subsidiaryColumns" by (simp add: subsidiaryColumns_def)
  have e: "formatSearchObj dateUtilStub ''subsidiary'' subsidiaryColumns ?p [] defaultSortId None
           = Inr ?d"
    by (simp add: formatSearchObj_count_example)
  have n: "length (columns ?d) = 3" by (simp add: formatSearchObj_count_example)
  from countOnly_no_order
         [where params = ?p and Columns = textualColumns
            and defaultSort = defaultSortId
            and SColumns = subsidiaryColumns and du = dateUtilStub and ty = "''subsidiary''"
            and inbuiltSearch = "[]" and st = None and d = ?d and inbuiltFilter = "[]"
            and template = "[]", OF h]
  have a: "orderByClause textualColumns ?p defaultSortId = []"
    and b: "columnsClause textualColumns ?p = ''COUNT(*) AS Count''"
    and c: "[] \<notin> fst ` set subsidiaryColumns
            \<longrightarrow> formatSearchObj dateUtilStub ''subsidiary'' subsidiaryColumns ?p [] defaultSortId None = Inr ?d
            \<longrightarrow> (\<forall>col \<in> set (columns ?d). \<not> hasSort col)"
    by blast+
  from c k e have "\<forall>col \<in> set (columns ?d). \<not> hasSort col" by blast
  then have "map hasSort (columns ?d) = replicate (length (columns ?d)) False"
    by (rule map_all_False)
  with n have "map hasSort (columns ?d) = [False, False, False]"
    by (simp add: numeral_3_eq_3)
  with a b show ?thesis by blast
qed

section \<open>Paged fetch loop: results\<close>

lemma fetchLoop_three_pages:
  assumes "CountOnly input \<noteq> Some True"
    and "executeSuiteQL x0 q 0 = (Inr r0, x1)" and "hasMore r0"
    and "executeSuiteQL x1 q (offset r0 + count r0) = (Inr r1, x2)" and "hasMore r1"
    and "executeSuiteQL x2 q (offset r1 + count r1) = (Inr r2, x3)" and "\<not> hasMore r2"
  shows "pagedFetch executeSuiteQL du q Columns input x0 =
           Some (Inr (TotalData (transform du (items r0) Columns @ transform du (items r1) Columns
                                 @ transform du (items r2) Columns)),
                 [(q, 0), (q, offset r0 + count r0), (q, offset r1 + count r1)], x3)"
proof -
  have third:
    "fetchLoop executeSuiteQL du q Columns input x2 (offset r1 + count r1)
       (transform du (items r0) Columns @ transform du (items r1) Columns)
       [(q, 0), (q, offset r0 + count r0)] =
     Some (Inr (TotalData (transform du (items r0) Columns @ transform du (items r1) Columns
                           @ transform du (items r2) Columns)),
           [(q, 0), (q, offset r0 + count r0), (q, offset r1 + count r1)], x3)"
    by (subst fetchLoop.simps) (simp add: assms)
  have second:
    "fetchLoop executeSuiteQL du q Columns input x1 (offset r0 + count r0)
       (transform du (items r0) Columns) [(q, 0)] =
     fetchLoop executeSuiteQL du q Columns input x2 (offset r1 + count r1)
       (transform du (items r0) Columns @ transform du (items r1) Columns)
       [(q, 0), (q, offset r0 + count r0)]"
    by (subst fetchLoop.simps) (simp add: assms)
  have first:
    "fetchLoop executeSuiteQL du q Columns input x0 0 [] [] =
     fetchLoop executeSuiteQL du q Columns input x1 (offset r0 + count r0)
       (transform du (items r0) Columns) [(q, 0)]"
    by (subst fetchLoop.simps) (simp add: assms)
  show ?thesis
    unfolding pagedFetch_def first second third by simp
qed

lemma transform_stubPage:
  "transform dateUtilStub (stubPage 0) stubColumns
     = [[(''Name'', JStr ''a'')], [(''Name'', JStr ''b'')]]"
  "transform dateUtilStub (stubPage (Suc 0)) stubColumns
     = [[(''Name'', JStr ''c'')], [(''Name'', JStr ''d'')]]"
  "transform dateUtilStub (stubPage (Suc (Suc 0))) stubColumns = [[(''Name'', JStr ''e'')]]"
  by (simp_all add: normalizer_eval stubPage_def stubColumns_def sqlColumn_def)

text \<open>
  C10, as stated, fails in its remark that the offsets increase strictly for non-empty
  pages. The next offset is the response's \<^verbatim>\<open>offset\<close> plus its \<^verbatim>\<open>count\<close>, and the
  response's \<^verbatim>\<open>offset\<close> is whatever the executor reports. For the stub whose pages
  hold two, two and one row and whose responses all report the offset 0, the loop calls
  at the offsets 0, 2 and 2.
\<close>

theorem pagedFetch_offsets_repeat_counterexample:
  "pagedFetch fixedOffsetExecutor dateUtilStub ''SELECT  a.Name AS Name FROM Account a''
     stubColumns emptyParams 0 =
   Some (Inr (TotalData [[(''Name'', JStr ''a'')], [(''Name'', JStr ''b'')], [(''Name'', JStr ''c'')],
                         [(''Name'', JStr ''d'')], [(''Name'', JStr ''e'')]]),
         [(''SELECT  a.Name AS Name FROM Account a'', 0),
          (''SELECT  a.Name AS Name FROM Account a'', 2),
          (''SELECT  a.Name AS Name FROM Account a'', 2)], 3)
   \<and> \<not> sorted_wrt (<)
         (callOffsets (pagedFetch fixedOffsetExecutor dateUtilStub
                         ''SELECT  a.Name AS Name FROM Account a'' stubColumns emptyParams 0))"
proof -
  let ?q = "''SELECT  a.Name AS Name FROM Account a''"
  let ?r0 = "\<lparr>totalCount = 5, items = stubPage 0, hasMore = True, offset = 0, count = 2\<rparr>"
  let ?r1 = "\<lparr>totalCount = 5, items = stubPage (Suc 0), hasMore = True, offset = 0, count = 2\<rparr>"
  let ?r2 = "\<lparr>totalCount = 5, items = stubPage (Suc (Suc 0)), hasMore = False, offset = 0,
              count = 1\<rparr>"
  have c: "CountOnly emptyParams \<noteq> Some True" by (simp add: emptyParams_def)
  have e0: "fixedOffsetExecutor 0 ?q 0 = (Inr ?r0, Suc 0)"
    by (simp add: fixedOffsetExecutor_def stubPage_def)
  have e1: "fixedOffsetExecutor (Suc 0) ?q (offset ?r0 + count ?r0) = (Inr ?r1, Suc (Suc 0))"
    by (simp add: fixedOffsetExecutor_def stubPage_def)
  have e2: "fixedOffsetExecutor (Suc (Suc 0)) ?q (offset ?r1 + count ?r1) = (Inr ?r2, 3)"
    by (simp add: fixedOffsetExecutor_def stubPage_def numeral_3_eq_3)
  have h0: "hasMore ?r0" and h1: "hasMore ?r1" and h2: "\<not> hasMore ?r2" by simp_all
  from fetchLoop_three_pages
         [where executeSuiteQL = fixedOffsetExecutor and input = emptyParams and q = ?q
            and ?x0.0 = 0 and ?x1.0 = "Suc 0" and ?x2.0 = "Suc (Suc 0)" and ?x3.0 = 3
            and ?r0.0 = ?r0 and ?r1.0 = ?r1 and ?r2.0 = ?r2
            and du = dateUtilStub and Columns = stubColumns,
          OF c e0 h0 e1 h1 e2 h2]
  show ?thesis by (simp add: transform_stubPage callOffsets_def)
qed

text \<open>
  C10, amended. Outside count mode, with an executor that answers the first two calls
  with \<^verbatim>\<open>hasMore:true\<close> and the third with \<^verbatim>\<open>hasMore:false\<close>, the loop returns; it
  has made exactly three calls, the first at offset 0 and each later one at the previous
  response's \<^verbatim>\<open>offset + count\<close>; its result is the normalized rows of the three pages
  in the order of the calls. The offsets of its calls increase strictly when the first
  two responses report the offset they were asked for and a positive count.
\<close>

theorem pagedFetch_three_pages:
  assumes "CountOnly input \<noteq> Some True"
    and "executeSuiteQL x0 q 0 = (Inr r0, x1)" and "hasMore r0"
    and "executeSuiteQL x1 q (offset r0 + count r0) = (Inr r1, x2)" and "hasMore r1"
    and "executeSuiteQL x2 q (offset r1 + count r1) = (Inr r2, x3)" and "\<not> hasMore r2"
  shows "pagedFetch executeSuiteQL du q Columns input x0 =
           Some (Inr (TotalData (transform du (items r0) Columns @ transform du (items r1) Columns
                                 @ transform du (items r2) Columns)),
                 [(q, 0), (q, offset r0 + count r0), (q, offset r1 + count r1)], x3)
         \<and> (offset r0 = 0 \<and> offset r1 = offset r0 + count r0 \<and> 0 < count r0 \<and> 0 < count r1
            \<longrightarrow> sorted_wrt (<) (callOffsets (pagedFetch executeSuiteQL du q Columns input x0)))"
proof -
  note run = fetchLoop_three_pages
                [where executeSuiteQL = executeSuiteQL and input = input and q = q
                   and ?x0.0 = x0 and ?x1.0 = x1 and ?x2.0 = x2 and ?x3.0 = x3
                   and ?r0.0 = r0 and ?r1.0 = r1 and ?r2.0 = r2 and du = du
                   and Columns = Columns, OF assms]
  have "offset r0 = 0 \<and> offset r1 = offset r0 + count r0 \<and> 0 < count r0 \<and> 0 < count r1
        \<longrightarrow> sorted_wrt (<) (callOffsets (pagedFetch executeSuiteQL du q Columns input x0))"
    unfolding run by (simp add: callOffsets_def)
  with run show ?thesis by blast
qed

text \<open>
  The amended C10 at the stub executor, which reports the offset it is asked for and
  whose pages hold two, two and one row: the calls are at the offsets 0, 2 and 4, and
  the five rows come back in order.
\<close>

theorem pagedFetch_three_pages_witness:
  "pagedFetch stubExecutor dateUtilStub ''SELECT  a.Name AS Name FROM Account a'' stubColumns
     emptyParams 0 =
   Some (Inr (TotalData [[(''Name'', JStr ''a'')], [(''Name'', JStr ''b'')], [(''Name'', JStr ''c'')],
                         [(''Name'', JStr ''d'')], [(''Name'', JStr ''e'')]]),
         [(''SELECT  a.Name AS Name FROM Account a'', 0),
          (''SELECT  a.Name AS Name FROM Account a'', 2),
          (''SELECT  a.Name AS Name FROM Account a'', 4)], 3)
   \<and> sorted_wrt (<)
       (callOffsets (pagedFetch stubExecutor dateUtilStub
                       ''SELECT  a.Name AS Name FROM Account a'' stubColumns emptyParams 0))"
proof -
  let ?q = "''SELECT  a.Name AS Name FROM Account a''"
  let ?r0 = "\<lparr>totalCount = 5, items = stubPage 0, hasMore = True, offset = 0, count = 2\<rparr>"
  let ?r1 = "\<lparr>totalCount = 5, items = stubPage (Suc 0), hasMore = True, offset = 2, count = 2\<rparr>"
  let ?r2 = "\<lparr>totalCount = 5, items = stubPage (Suc (Suc 0)), hasMore = False, offset = 4,
              count = 1\<rparr>"
  have c: "CountOnly emptyParams \<noteq> Some True" by (simp add: emptyParams_def)
  have e0: "stubExecutor 0 ?q 0 = (Inr ?r0, Suc 0)"
    by (simp add: stubExecutor_def stubPage_def)
  have e1: "stubExecutor (Suc 0) ?q (offset ?r0 + count ?r0) = (Inr ?r1, Suc (Suc 0))"
    by (simp add: stubExecutor_def stubPage_def)
  have e2: "stubExecutor (Suc (Suc 0)) ?q (offset ?r1 + count ?r1) = (Inr ?r2, 3)"
    by (simp add: stubExecutor_def stubPage_def numeral_3_eq_3)
  have h0: "hasMore ?r0" and h1: "hasMore ?r1" and h2: "\<not> hasMore ?r2" by simp_all
  have echo: "offset ?r0 = 0 \<and> offset ?r1 = offset ?r0 + count ?r0 \<and> 0 < count ?r0
              \<and> 0 < count ?r1"
    by simp
  from pagedFetch_three_pages
         [where executeSuiteQL = stubExecutor and input = emptyParams and q = ?q
            and ?x0.0 = 0 and ?x1.0 = "Suc 0" and ?x2.0 = "Suc (Suc 0)" and ?x3.0 = 3
            and ?r0.0 = ?r0 and ?r1.0 = ?r1 and ?r2.0 = ?r2
            and du = dateUtilStub and Columns = stubColumns,
          OF c e0 h0 e1 h1 e2 h2] echo
  have "pagedFetch stubExecutor dateUtilStub ?q stubColumns emptyParams 0 =
          Some (Inr (TotalData (transform dateUtilStub (items ?r0) stubColumns
                                @ transform dateUtilStub (items ?r1) stubColumns
                                @ transform dateUtilStub (items ?r2) stubColumns)),
                [(?q, 0), (?q, offset ?r0 + count ?r0), (?q, offset ?r1 + count ?r1)], 3)"
    and "sorted_wrt (<) (callOffsets (pagedFetch stubExecutor dateUtilStub ?q stubColumns
                                        emptyParams 0))"
    by blast+
  then show ?thesis by (simp add: transform_stubPage)
qed

end
